theory Spec2Isabelle
  imports Main "HOL-Library.Word" "HOL-Library.Sublist"
begin

section \<open>Bounded retry runner (package node, test helpers)\<close>

text \<open>
  Go's \<open>int\<close> is a 64-bit two's complement integer on the platforms the node is built
  for; \<open>+\<close> and \<open>-\<close> wrap around and \<open>\<le>\<close> compares the signed values.
\<close>

type_synonym go_int = "64 word"
type_synonym u64 = "64 word"
type_synonym duration = "64 word"

text \<open>
  \<open>fn func() error\<close> is a closure acting on the world: from a world state it yields
  \<open>nil\<close> (\<open>None\<close>) or an error, and the world after the call.  An execution also
  records how often \<open>fn\<close> was invoked and the durations handed to \<open>time.Sleep\<close>.
\<close>

record 's exec =
  st :: 's
  calls :: nat
  slept :: "duration list"

definition invoke :: "('s \<Rightarrow> 'e option \<times> 's) \<Rightarrow> 's exec \<Rightarrow> 'e option \<times> 's exec" where
  "invoke fn x = (case fn (st x) of (r, s') \<Rightarrow> (r, x\<lparr>st := s', calls := calls x + 1\<rparr>))"

definition sleep :: "duration \<Rightarrow> 's exec \<Rightarrow> 's exec" where
  "sleep d x = x\<lparr>slept := slept x @ [d]\<rparr>"

text \<open>
  \<^verbatim>\<open>
  for i := 1; i <= tries-1; i++ {
      err = fn()
      if err == nil { return nil }
      time.Sleep(durationBetweenAttempts)
  }
  return fn()
  \<close>
  The loop need not end (when \<open>tries - 1\<close> wraps to the largest \<open>int\<close>), so the loop is
  a partial function: \<open>None\<close> is "does not return".
\<close>

partial_function (option) Retry_loop ::
  "go_int \<Rightarrow> duration \<Rightarrow> ('s \<Rightarrow> 'e option \<times> 's) \<Rightarrow> go_int \<Rightarrow> 's exec
     \<Rightarrow> ('e option \<times> 's exec) option"
where
  "Retry_loop tries durationBetweenAttempts fn i x =
     (if i <=s tries - 1 then
        (case invoke fn x of
           (None, x') \<Rightarrow> Some (None, x')
         | (Some e, x') \<Rightarrow>
             Retry_loop tries durationBetweenAttempts fn (i + 1) (sleep durationBetweenAttempts x'))
      else Some (invoke fn x))"

definition Retry ::
  "go_int \<Rightarrow> duration \<Rightarrow> ('s \<Rightarrow> 'e option \<times> 's) \<Rightarrow> 's \<Rightarrow> ('e option \<times> 's exec) option" where
  "Retry tries durationBetweenAttempts fn s =
     Retry_loop tries durationBetweenAttempts fn 1 \<lparr>st = s, calls = 0, slept = []\<rparr>"

text \<open>
  The loop with its bound already counted: \<open>m\<close> guarded attempts, each followed by a
  sleep when it fails, and then the final, unguarded \<open>return fn()\<close>.
\<close>

fun attempts ::
  "nat \<Rightarrow> duration \<Rightarrow> ('s \<Rightarrow> 'e option \<times> 's) \<Rightarrow> 's exec \<Rightarrow> 'e option \<times> 's exec" where
  "attempts 0 d fn x = invoke fn x"
| "attempts (Suc m) d fn x =
     (case invoke fn x of
        (None, x') \<Rightarrow> (None, x')
      | (Some e, x') \<Rightarrow> attempts m d fn (sleep d x'))"

text \<open>
  The world after \<open>k\<close> invocations of \<open>fn\<close> in a row, and what invocation number
  \<open>j + 1\<close> returns when the \<open>j\<close> before it have been made.
\<close>

definition world_after :: "('s \<Rightarrow> 'e option \<times> 's) \<Rightarrow> nat \<Rightarrow> 's \<Rightarrow> 's" where
  "world_after fn k s = ((\<lambda>w. snd (fn w)) ^^ k) s"

definition outcome :: "('s \<Rightarrow> 'e option \<times> 's) \<Rightarrow> nat \<Rightarrow> 's \<Rightarrow> 'e option" where
  "outcome fn j s = fst (fn (world_after fn j s))"

section \<open>Height resolver (package node, test helpers)\<close>

text \<open>
  Go \<open>error\<close> values: \<open>errors.New(msg)\<close> and the errors of collaborators are
  \<open>Err msg\<close>; \<open>fmt.Errorf("expected height > %v, got %v", n, nHeight)\<close> is
  \<open>ErrExpectedHeight n nHeight\<close>.
\<close>

datatype error = Err string | ErrExpectedHeight u64 u64

text \<open>\<open>type Source int\<close> with \<open>Header Source = iota\<close>, \<open>Data\<close>, \<open>Store\<close>.\<close>

type_synonym Source = go_int

definition Header :: Source where "Header = 0"
definition Data :: Source where "Data = 1"
definition Store :: Source where "Store = 2"

text \<open>
  The \<open>Node\<close> interface value and its dynamic type.  The services a node holds are
  read through method calls; what a call reports depends on the moment \<open>'w\<close> at which
  it is made.  \<open>GetStoreHeight\<close> returns a height together with an error.
  \<open>FullNode\<close> and \<open>LightNode\<close> stand for non-nil pointers to nodes whose services
  are set up; \<open>OtherNode\<close> is any other value of the interface, nil included.
\<close>

record 'w full_node =
  fn_hSyncService_Height :: "'w \<Rightarrow> u64"
  fn_dSyncService_Height :: "'w \<Rightarrow> u64"
  fn_GetStoreHeight :: "'w \<Rightarrow> u64 \<times> error option"
  fn_GetDAIncludedHeight :: "'w \<Rightarrow> u64"

record 'w light_node =
  ln_hSyncService_Height :: "'w \<Rightarrow> u64"

datatype 'w Node = FullNode "'w full_node" | LightNode "'w light_node" | OtherNode

definition getNodeHeightFromHeader :: "'w Node \<Rightarrow> 'w \<Rightarrow> u64 \<times> error option" where
  "getNodeHeightFromHeader node w =
     (case node of
        FullNode fn \<Rightarrow> (fn_hSyncService_Height fn w, None)
      | LightNode ln \<Rightarrow> (ln_hSyncService_Height ln w, None)
      | OtherNode \<Rightarrow> (0, Some (Err ''not a full or light node'')))"

definition getNodeHeightFromData :: "'w Node \<Rightarrow> 'w \<Rightarrow> u64 \<times> error option" where
  "getNodeHeightFromData node w =
     (case node of
        FullNode fn \<Rightarrow> (fn_dSyncService_Height fn w, None)
      | _ \<Rightarrow> (0, Some (Err ''not a full node'')))"

definition getNodeHeightFromStore :: "'w Node \<Rightarrow> 'w \<Rightarrow> u64 \<times> error option" where
  "getNodeHeightFromStore node w =
     (case node of
        FullNode fn \<Rightarrow> fn_GetStoreHeight fn w
      | _ \<Rightarrow> (0, Some (Err ''not a full node'')))"

definition getNodeHeight :: "'w Node \<Rightarrow> Source \<Rightarrow> 'w \<Rightarrow> u64 \<times> error option" where
  "getNodeHeight node source w =
     (if source = Header then getNodeHeightFromHeader node w
      else if source = Data then getNodeHeightFromData node w
      else if source = Store then getNodeHeightFromStore node w
      else (0, Some (Err ''invalid source'')))"

text \<open>
  The sources a node's role supports, as the specification of height resolution has
  them: a full node has all three, a light node only \<open>Header\<close> (it "has no \<open>DataSync\<close>
  or \<open>LocalStore\<close> source"), any other node none.
\<close>

definition source_supported :: "'w Node \<Rightarrow> Source \<Rightarrow> bool" where
  "source_supported node source =
     (case node of
        FullNode _ \<Rightarrow> source = Header \<or> source = Data \<or> source = Store
      | LightNode _ \<Rightarrow> source = Header
      | OtherNode \<Rightarrow> False)"

text \<open>
  The body of the closure polled by \<open>waitForAtLeastNDAIncludedHeight\<close>, once
  \<open>nHeight\<close> has been read from the block manager.
\<close>

definition daIncludedAttempt :: "u64 \<Rightarrow> u64 \<Rightarrow> error option" where
  "daIncludedAttempt n nHeight =
     (if nHeight = 0 then Some (Err ''waiting for DA inclusion'')
      else if nHeight \<ge> n then None
      else Some (ErrExpectedHeight n nHeight))"

text \<open>
  \<open>node.(*FullNode)\<close> has no \<open>ok\<close> result: on any other node the closure panics at its
  first invocation, which is the first thing \<open>Retry\<close> does, so the whole call panics.
  Between one poll and the next the world moves on by \<open>env\<close> (the other goroutines).
  \<open>100*time.Millisecond\<close> is 100000000 nanoseconds.
\<close>

datatype 'a go_result = Panic | Returned 'a

definition waitForAtLeastNDAIncludedHeight ::
  "'w Node \<Rightarrow> u64 \<Rightarrow> ('w \<Rightarrow> 'w) \<Rightarrow> 'w \<Rightarrow> (error option \<times> 'w exec) option go_result" where
  "waitForAtLeastNDAIncludedHeight node n env w =
     (case node of
        FullNode fn \<Rightarrow>
          Returned (Retry 300 100000000
            (\<lambda>w. (daIncludedAttempt n (fn_GetDAIncludedHeight fn w), env w)) w)
      | _ \<Rightarrow> Panic)"

section \<open>Store server (package server) and metadata keys (package types)\<close>

type_synonym bytes = "8 word list"

definition DAIncludedHeightKey :: string where
  "DAIncludedHeightKey = ''d''"

definition LastBatchDataKey :: string where
  "LastBatchDataKey = ''l''"

definition LastSubmittedHeaderHeightKey :: string where
  "LastSubmittedHeaderHeightKey = ''last-submitted-header-height''"

definition LastSubmittedDataHeightKey :: string where
  "LastSubmittedDataHeightKey = ''last-submitted-data-height''"

definition GetKnownMetadataKeysList :: "string list" where
  "GetKnownMetadataKeysList =
     [DAIncludedHeightKey, LastBatchDataKey, LastSubmittedHeaderHeightKey,
      LastSubmittedDataHeightKey]"

text \<open>
  The \<open>store.Store\<close> interface as the server uses it: a store value is one state of
  the store, and each method answers from that state.  \<open>'h\<close> and \<open>'d\<close> are
  \<open>*types.SignedHeader\<close> and \<open>*types.Data\<close>, whose declarations the server only
  imports.
\<close>

record ('h, 'd) store =
  store_Height :: "error + u64"
  store_GetBlockData :: "u64 \<Rightarrow> error + 'h \<times> 'd"
  store_GetBlockByHash :: "bytes \<Rightarrow> error + 'h \<times> 'd"
  store_GetMetadata :: "string \<Rightarrow> error + bytes"

text \<open>The calls a request makes on the store, in order.\<close>

datatype store_call = Call_Height | Call_GetBlockData u64 | Call_GetBlockByHash bytes

text \<open>
  \<open>connect.NewError(code, fmt.Errorf(msg, err))\<close>: the code, the message and the
  error wrapped by \<open>%w\<close>, if any.
\<close>

datatype connect_code = CodeInternal | CodeNotFound | CodeInvalidArgument

datatype connect_error = NewError connect_code string "error option"

text \<open>
  \<open>req.Msg.Identifier\<close>: a height, a hash, or neither (the \<open>default\<close> branch of the
  type switch).
\<close>

datatype GetBlockRequest_Identifier =
  GetBlockRequest_Height u64 | GetBlockRequest_Hash bytes | NoIdentifier

record ('ph, 'pd) pb_Block =
  pb_Header :: 'ph
  pb_Data :: 'pd

text \<open>
  What follows the \<open>switch\<close> in \<open>GetBlock\<close>: the error check on the fetched block and
  the conversion to protobuf.  \<open>header.ToProto()\<close> may fail, \<open>data.ToProto()\<close> may not;
  both are imported, and taken here as \<open>hToProto\<close> and \<open>dToProto\<close>.
\<close>

definition respond ::
  "('h \<Rightarrow> error + 'ph) \<Rightarrow> ('d \<Rightarrow> 'pd) \<Rightarrow> error + 'h \<times> 'd
     \<Rightarrow> connect_error + ('ph, 'pd) pb_Block" where
  "respond hToProto dToProto fetched =
     (case fetched of
        Inl err \<Rightarrow> Inl (NewError CodeInternal ''failed to retrieve block data: '' (Some err))
      | Inr (header, data) \<Rightarrow>
          (case hToProto header of
             Inl err \<Rightarrow>
               Inl (NewError CodeInternal
                      ''failed to convert block header to proto format: '' (Some err))
           | Inr pbHeader \<Rightarrow> Inr \<lparr>pb_Header = pbHeader, pb_Data = dToProto data\<rparr>))"

definition GetBlock ::
  "('h, 'd) store \<Rightarrow> ('h \<Rightarrow> error + 'ph) \<Rightarrow> ('d \<Rightarrow> 'pd) \<Rightarrow> GetBlockRequest_Identifier
     \<Rightarrow> (connect_error + ('ph, 'pd) pb_Block) \<times> store_call list" where
  "GetBlock s hToProto dToProto ident =
     (case ident of
        GetBlockRequest_Height height \<Rightarrow>
          if height = 0 then
            (case store_Height s of
               Inl err \<Rightarrow>
                 (Inl (NewError CodeInternal ''failed to get latest height: '' (Some err)),
                  [Call_Height])
             | Inr fetchHeight \<Rightarrow>
                 if fetchHeight = 0 then
                   (Inl (NewError CodeNotFound ''store is empty, no latest block available'' None),
                    [Call_Height])
                 else
                   (respond hToProto dToProto (store_GetBlockData s fetchHeight),
                    [Call_Height, Call_GetBlockData fetchHeight]))
          else
            (respond hToProto dToProto (store_GetBlockData s height),
             [Call_GetBlockData height])
      | GetBlockRequest_Hash hash \<Rightarrow>
          (respond hToProto dToProto (store_GetBlockByHash s hash), [Call_GetBlockByHash hash])
      | NoIdentifier \<Rightarrow>
          (Inl (NewError CodeInvalidArgument
                  ''invalid or unsupported identifier type provided'' None),
           []))"

record MetadataEntry =
  Key :: string
  Value :: bytes

text \<open>
  The loop of \<open>GetAllMetadata\<close> over the known keys: a failed lookup is skipped
  (\<open>continue\<close>), a successful one appends an entry.
\<close>

fun collectMetadata ::
  "('h, 'd) store \<Rightarrow> string list \<Rightarrow> MetadataEntry list \<Rightarrow> MetadataEntry list" where
  "collectMetadata s [] metadataEntries = metadataEntries"
| "collectMetadata s (key # keys) metadataEntries =
     (case store_GetMetadata s key of
        Inl err \<Rightarrow> collectMetadata s keys metadataEntries
      | Inr value \<Rightarrow>
          collectMetadata s keys (metadataEntries @ [\<lparr>Key = key, Value = value\<rparr>]))"

definition GetAllMetadata :: "('h, 'd) store \<Rightarrow> connect_error + MetadataEntry list" where
  "GetAllMetadata s = Inr (collectMetadata s GetKnownMetadataKeysList [])"

section \<open>Block validity (package types)\<close>

text \<open>
  Modelled from the spec: the Go declarations of \<open>Header\<close>, \<open>SignedHeader\<close>,
  \<open>Validator\<close>, \<open>ValidatorSet\<close>, \<open>Data\<close> and \<open>Block\<close> are missing; only the
  outline \<open>specs/block-validity.md\<close> describes them.  The records follow the data model
  of the spec (section 3): a nil address, key, validator or validator set is \<open>None\<close>.
  The field \<open>sh_Header\<close> is the spec's \<open>SignedHeader.Header\<close> and \<open>blk_Data\<close> its
  \<open>Block.Data\<close>.
\<close>

record base_header =
  Height :: u64
  Time :: u64
  ChainID :: string

record header = base_header +
  LastHeaderHash :: bytes
  LastCommitHash :: bytes
  DataHash :: bytes
  ConsensusHash :: bytes
  AppHash :: bytes
  LastResultsHash :: bytes
  ProposerAddress :: "bytes option"
  AggregatorsHash :: bytes

record validator =
  v_Address :: bytes
  v_PubKey :: "bytes option"

record validator_set =
  vs_Validators :: "validator option list"
  vs_Proposer :: "validator option"

record signed_header =
  sh_Header :: header
  sh_Signature :: bytes
  sh_Validators :: "validator_set option"

type_synonym data = "bytes list"

record block =
  blk_SignedHeader :: signed_header
  blk_Data :: data

text \<open>
  Modelled from the spec: the hash functions, the signature check and the address size
  are missing; the spec (section 1) takes them as external cryptographic functions, and
  they are parameters of the validity checks.
\<close>

record crypto =
  Header_Hash :: "header \<Rightarrow> bytes"
  Signature_CommitHash :: "bytes \<Rightarrow> bytes"
  Data_Hash :: "data \<Rightarrow> bytes"
  ValidatorSet_Hash :: "validator_set \<Rightarrow> bytes"
  VerifySignature :: "bytes \<Rightarrow> bytes \<Rightarrow> bytes \<Rightarrow> bool"
  AddressSize :: nat

text \<open>
  Modelled from the spec: the errors of the validity checks are missing.  Spec 4.1:
  "Error reporting must identify which subfield failed"; one error for each check.
\<close>

datatype structural_error =
    ErrProposerAddressNil
  | ErrNoSignature
  | ErrValidatorSetEmpty
  | ErrInvalidValidator
  | ErrInvalidProposer
  | ErrAggregatorsHashMismatch
  | ErrSignatureVerificationFailed
  | ErrDataHashMismatch

text \<open>
  Modelled from the spec: \<open>Validator.ValidateBasic\<close> is missing.
  Spec 3: "every element, including \<open>Proposer\<close>, independently satisfies the
  basic-validity predicate (non-nil, non-nil key, address of correct size)".
\<close>

definition Validator_ValidateBasic :: "crypto \<Rightarrow> validator option \<Rightarrow> bool" where
  "Validator_ValidateBasic c v =
     (case v of
        None \<Rightarrow> False
      | Some val \<Rightarrow> v_PubKey val \<noteq> None \<and> length (v_Address val) = AddressSize c)"

text \<open>
  Modelled from the spec: \<open>ValidatorSet.ValidateBasic\<close> is missing.
  Spec 4.1, step 3: "the set must be non-nil and contain at least one validator; every
  validator and the designated proposer must pass \<open>Validator.ValidateBasic()\<close>".
\<close>

definition ValidatorSet_ValidateBasic ::
  "crypto \<Rightarrow> validator_set option \<Rightarrow> structural_error + unit" where
  "ValidatorSet_ValidateBasic c vals =
     (case vals of
        None \<Rightarrow> Inl ErrValidatorSetEmpty
      | Some vs \<Rightarrow>
          if vs_Validators vs = [] then Inl ErrValidatorSetEmpty
          else if \<not> list_all (Validator_ValidateBasic c) (vs_Validators vs)
            then Inl ErrInvalidValidator
          else if \<not> Validator_ValidateBasic c (vs_Proposer vs) then Inl ErrInvalidProposer
          else Inr ())"

text \<open>
  Modelled from the spec: the signature check of \<open>SignedHeader.ValidateBasic\<close> is
  missing.  Spec 3: the signature verifies "using the set's sole proposer key"; a
  proposer without a key has no key to verify with.
\<close>

definition verifyWithProposer :: "crypto \<Rightarrow> validator_set \<Rightarrow> bytes \<Rightarrow> bytes \<Rightarrow> bool" where
  "verifyWithProposer c vs msg sig =
     (case vs_Proposer vs of
        None \<Rightarrow> False
      | Some p \<Rightarrow>
          (case v_PubKey p of
             None \<Rightarrow> False
           | Some key \<Rightarrow> VerifySignature c key msg sig))"

text \<open>
  Modelled from the spec: \<open>SignedHeader.ValidateBasic\<close> is missing.
  Spec 4.1, steps 1 to 3: \<open>Header.ValidateBasic()\<close> requires \<open>ProposerAddress\<close> non-nil,
  \<open>Signature.ValidateBasic()\<close> requires at least one signature byte; a nil or empty
  validator set is a based-rollup block and skips the validator-set, set-hash and
  signature checks; otherwise the set is validated, \<open>ValidatorSet.Hash()\<close> must equal
  \<open>AggregatorsHash\<close>, and the signature must verify against the header hash with the
  proposer's key.  The first failure aborts.
\<close>

definition SignedHeader_ValidateBasic :: "crypto \<Rightarrow> signed_header \<Rightarrow> structural_error + unit" where
  "SignedHeader_ValidateBasic c sh =
     (if ProposerAddress (sh_Header sh) = None then Inl ErrProposerAddressNil
      else if length (sh_Signature sh) = 0 then Inl ErrNoSignature
      else
        (case sh_Validators sh of
           None \<Rightarrow> Inr ()
         | Some vs \<Rightarrow>
             if length (vs_Validators vs) = 0 then Inr ()
             else
               (case ValidatorSet_ValidateBasic c (Some vs) of
                  Inl err \<Rightarrow> Inl err
                | Inr _ \<Rightarrow>
                    if ValidatorSet_Hash c vs \<noteq> AggregatorsHash (sh_Header sh)
                      then Inl ErrAggregatorsHashMismatch
                    else if \<not> verifyWithProposer c vs (Header_Hash c (sh_Header sh))
                                (sh_Signature sh)
                      then Inl ErrSignatureVerificationFailed
                    else Inr ())))"

text \<open>
  Modelled from the spec: \<open>Data.ValidateBasic\<close> is missing.
  Spec 4.1, step 4: "\<open>Data.ValidateBasic()\<close> always succeeds".
\<close>

definition Data_ValidateBasic :: "data \<Rightarrow> structural_error + unit" where
  "Data_ValidateBasic d = Inr ()"

text \<open>
  Modelled from the spec: \<open>Block.ValidateBasic\<close> is missing.
  Spec 4.1: the cascade of steps 1 to 3 on the signed header, then step 4 on the data,
  then step 5, \<open>Data.Hash() == SignedHeader.Header.DataHash\<close>.
\<close>

definition ValidateBasic :: "crypto \<Rightarrow> block \<Rightarrow> structural_error + unit" where
  "ValidateBasic c b =
     (case SignedHeader_ValidateBasic c (blk_SignedHeader b) of
        Inl err \<Rightarrow> Inl err
      | Inr _ \<Rightarrow>
          (case Data_ValidateBasic (blk_Data b) of
             Inl err \<Rightarrow> Inl err
           | Inr _ \<Rightarrow>
               if Data_Hash c (blk_Data b) = DataHash (sh_Header (blk_SignedHeader b))
                 then Inr ()
               else Inl ErrDataHashMismatch))"

text \<open>
  Modelled from the spec: the result type of \<open>SignedHeader.Verify\<close> is missing.
  Spec 4.2: \<open>Verify(accepted, candidate) -> Accept | SoftFail | HardFail\<close>.
\<close>

datatype verdict = Accept | SoftFail | HardFail

text \<open>
  Modelled from the spec: \<open>SignedHeader.Verify\<close> is missing (the outline in
  \<open>specs/block-validity.md\<close> says of itself that the code does not match it).
  Spec 4.2: a candidate more than one above the accepted head is a soft failure;
  one at or below it a hard failure; otherwise the two are adjacent, and the candidate
  is accepted when its \<open>LastHeaderHash\<close> is the hash of the accepted header and its
  \<open>LastCommitHash\<close> the commit hash of the accepted signature, and fails hard on any
  mismatch.  The validator-set continuity check of the adjacent case "is a no-op" in the
  fixed single-sequencer configuration.  Heights are \<open>uint64\<close> and are compared as the
  numbers they denote, so that \<open>accepted.Height + 1\<close> is the next number, as the spec's
  three cases require.
\<close>

definition Verify :: "crypto \<Rightarrow> signed_header \<Rightarrow> signed_header \<Rightarrow> verdict" where
  "Verify c accepted candidate =
     (if unat (Height (sh_Header candidate)) > unat (Height (sh_Header accepted)) + 1
        then SoftFail
      else if unat (Height (sh_Header candidate)) \<le> unat (Height (sh_Header accepted))
        then HardFail
      else if LastHeaderHash (sh_Header candidate) \<noteq> Header_Hash c (sh_Header accepted)
        then HardFail
      else if LastCommitHash (sh_Header candidate)
                \<noteq> Signature_CommitHash c (sh_Signature accepted)
        then HardFail
      else Accept)"

section \<open>Concrete inputs\<close>

text \<open>
  Two closures over a counter of the calls made so far: \<open>flaky\<close> fails on its first
  call and succeeds from then on, \<open>failing\<close> fails on every call, with the number of
  the call in its error.
\<close>

definition flaky :: "nat \<Rightarrow> error option \<times> nat" where
  "flaky s = (if s = 0 then Some (Err ''not yet'') else None, Suc s)"

definition failing :: "nat \<Rightarrow> error option \<times> nat" where
  "failing s = (Some (ErrExpectedHeight 1 (of_nat s)), Suc s)"

text \<open>The smallest \<open>int\<close>, \<open>math.MinInt64\<close>.\<close>

definition MinInt64 :: go_int where
  "MinInt64 = - (2 ^ 63)"

text \<open>
  Three nodes whose services report the same at every moment: a full node whose block
  store fails and whose DA-included height is still 0, a full node in good health, and
  a light node.
\<close>

definition stalled_full_node :: "unit Node" where
  "stalled_full_node =
     FullNode \<lparr>fn_hSyncService_Height = (\<lambda>_. 7), fn_dSyncService_Height = (\<lambda>_. 7),
       fn_GetStoreHeight = (\<lambda>_. (0, Some (Err ''datastore: closed''))),
       fn_GetDAIncludedHeight = (\<lambda>_. 0)\<rparr>"

definition synced_full_node :: "unit Node" where
  "synced_full_node =
     FullNode \<lparr>fn_hSyncService_Height = (\<lambda>_. 7), fn_dSyncService_Height = (\<lambda>_. 6),
       fn_GetStoreHeight = (\<lambda>_. (5, None)), fn_GetDAIncludedHeight = (\<lambda>_. 4)\<rparr>"

definition synced_light_node :: "unit Node" where
  "synced_light_node = LightNode \<lparr>ln_hSyncService_Height = (\<lambda>_. 7)\<rparr>"

text \<open>
  Two stores, with heights for blocks: one holds blocks 1 to 20 and the metadata keys
  \<open>d\<close> and \<open>l\<close>, as in \<open>TestStoreServer_GetAllMetadata_WithMissingKeys\<close>; one is empty.
\<close>

definition partial_store :: "(u64, u64) store" where
  "partial_store =
     \<lparr>store_Height = Inr 20,
      store_GetBlockData =
        (\<lambda>h. if h = 0 \<or> 20 < h then Inl (Err ''block not found'') else Inr (h, h)),
      store_GetBlockByHash = (\<lambda>_. Inl (Err ''block not found'')),
      store_GetMetadata =
        (\<lambda>key. if key = ''d'' then Inr [1, 0, 0, 0, 0, 0, 0, 0]
               else if key = ''l'' then Inr [98, 97, 116, 99, 104]
               else Inl (Err ''key not found''))\<rparr>"

definition empty_store :: "(u64, u64) store" where
  "empty_store =
     \<lparr>store_Height = Inr 0,
      store_GetBlockData = (\<lambda>_. Inl (Err ''block not found'')),
      store_GetBlockByHash = (\<lambda>_. Inl (Err ''block not found'')),
      store_GetMetadata = (\<lambda>_. Inl (Err ''key not found''))\<rparr>"

text \<open>
  Stand-ins for the cryptographic collaborators, and blocks over them: a genesis head at
  height 1, its successor at height 2 (a based-rollup block, without validators), a
  block at height 5, a block signed by a single sequencer, and a block with a nil
  proposer address.
\<close>

definition toy_crypto :: crypto where
  "toy_crypto =
     \<lparr>Header_Hash = (\<lambda>h. [ucast (Height h)]),
      Signature_CommitHash = (\<lambda>sig. rev sig),
      Data_Hash = concat,
      ValidatorSet_Hash = (\<lambda>vs. [of_nat (length (vs_Validators vs))]),
      VerifySignature = (\<lambda>key msg sig. sig = key @ msg),
      AddressSize = 2\<rparr>"

definition header_at :: "u64 \<Rightarrow> bytes \<Rightarrow> bytes \<Rightarrow> header" where
  "header_at h lastHeaderHash lastCommitHash =
     \<lparr>Height = h, Time = 0, ChainID = ''test'',
      LastHeaderHash = lastHeaderHash, LastCommitHash = lastCommitHash, DataHash = [7, 8],
      ConsensusHash = [], AppHash = [], LastResultsHash = [],
      ProposerAddress = Some [1, 2], AggregatorsHash = [1]\<rparr>"

definition genesis_head :: signed_header where
  "genesis_head =
     \<lparr>sh_Header = header_at 1 [] [], sh_Signature = [3, 4], sh_Validators = None\<rparr>"

definition block_2 :: signed_header where
  "block_2 =
     \<lparr>sh_Header = header_at 2 [1] [4, 3], sh_Signature = [5, 6], sh_Validators = None\<rparr>"

definition forged_block_2 :: signed_header where
  "forged_block_2 =
     \<lparr>sh_Header = header_at 2 [9] [4, 3], sh_Signature = [5, 6], sh_Validators = None\<rparr>"

definition block_5 :: signed_header where
  "block_5 =
     \<lparr>sh_Header = header_at 5 [1] [4, 3], sh_Signature = [5, 6], sh_Validators = None\<rparr>"

definition sequencer :: validator where
  "sequencer = \<lparr>v_Address = [1, 2], v_PubKey = Some [42]\<rparr>"

definition sequenced_block :: block where
  "sequenced_block =
     \<lparr>blk_SignedHeader =
        \<lparr>sh_Header = header_at 2 [1] [4, 3], sh_Signature = [42, 2],
         sh_Validators = Some \<lparr>vs_Validators = [Some sequencer], vs_Proposer = Some sequencer\<rparr>\<rparr>,
      blk_Data = [[7], [8]]\<rparr>"

definition based_block :: block where
  "based_block = \<lparr>blk_SignedHeader = block_2, blk_Data = [[7], [8]]\<rparr>"

definition unaddressed_block :: block where
  "unaddressed_block =
     \<lparr>blk_SignedHeader =
        \<lparr>sh_Header = (header_at 2 [1] [4, 3])\<lparr>ProposerAddress := None\<rparr>,
         sh_Signature = [5, 6], sh_Validators = None\<rparr>,
      blk_Data = [[7], [8]]\<rparr>"

section \<open>Properties of the retry runner\<close>

subsection \<open>Signed arithmetic on \<open>int\<close>\<close>

lemma sint_bounds: "- (2 ^ 63) \<le> sint (t :: go_int) \<and> sint t < 2 ^ 63"
  using sint_ge [of t] sint_lt [of t] by simp

lemma sint_dec: "sint (t :: go_int) \<noteq> - (2 ^ 63) \<Longrightarrow> sint (t - 1) = sint t - 1"
  using sint_bounds [of t]
  by (simp add: sint_word_ariths signed_take_bit_int_eq_self)

lemma sint_inc: "sint (i :: go_int) \<noteq> 2 ^ 63 - 1 \<Longrightarrow> sint (i + 1) = sint i + 1"
  using sint_bounds [of i]
  by (simp add: sint_word_ariths signed_take_bit_int_eq_self)

subsection \<open>The retry loop\<close>

lemma world_after_0: "world_after fn 0 s = s"
  by (simp add: world_after_def)

lemma world_after_Suc: "world_after fn (Suc k) s = world_after fn k (snd (fn s))"
  using funpow_swap1 [of "\<lambda>w. snd (fn w)" k s] by (simp add: world_after_def)

lemma outcome_0: "outcome fn 0 s = fst (fn s)"
  by (simp add: outcome_def world_after_0)

lemma outcome_Suc: "outcome fn (Suc j) s = outcome fn j (snd (fn s))"
  by (simp add: outcome_def world_after_Suc)

lemma invoke_eq:
  "invoke fn x = (fst (fn (st x)), x\<lparr>st := snd (fn (st x)), calls := calls x + 1\<rparr>)"
  by (simp add: invoke_def split: prod.splits)

lemma attempts_all_fail:
  "\<forall>j\<le>m. outcome fn j (st x) \<noteq> None \<Longrightarrow>
   attempts m d fn x =
     (outcome fn m (st x),
      \<lparr>st = world_after fn (Suc m) (st x), calls = calls x + Suc m,
       slept = slept x @ replicate m d\<rparr>)"
proof (induction m arbitrary: x)
  case 0
  show ?case by (simp add: invoke_eq outcome_0 world_after_Suc world_after_0)
next
  case (Suc m)
  from Suc.prems have "outcome fn 0 (st x) \<noteq> None" by blast
  then obtain e where e: "fst (fn (st x)) = Some e" by (auto simp: outcome_0)
  let ?y = "sleep d (x\<lparr>st := snd (fn (st x)), calls := calls x + 1\<rparr>)"
  have "\<forall>j\<le>m. outcome fn j (st ?y) \<noteq> None"
    using Suc.prems by (auto simp: sleep_def outcome_Suc [symmetric])
  from Suc.IH [OF this] show ?case
    by (simp add: invoke_eq e sleep_def outcome_Suc world_after_Suc replicate_app_Cons_same)
qed

lemma attempts_first_nil:
  "j \<le> m \<Longrightarrow> outcome fn j (st x) = None \<Longrightarrow> \<forall>i<j. outcome fn i (st x) \<noteq> None \<Longrightarrow>
   attempts m d fn x =
     (None,
      \<lparr>st = world_after fn (Suc j) (st x), calls = calls x + Suc j,
       slept = slept x @ replicate j d\<rparr>)"
proof (induction m arbitrary: x j)
  case 0
  then show ?case by (simp add: invoke_eq outcome_0 world_after_Suc world_after_0)
next
  case (Suc m)
  show ?case
  proof (cases j)
    case 0
    with Suc.prems show ?thesis
      by (simp add: invoke_eq outcome_0 world_after_Suc world_after_0)
  next
    case (Suc j')
    with Suc.prems have "outcome fn 0 (st x) \<noteq> None" by blast
    then obtain e where e: "fst (fn (st x)) = Some e" by (auto simp: outcome_0)
    let ?y = "sleep d (x\<lparr>st := snd (fn (st x)), calls := calls x + 1\<rparr>)"
    have a: "j' \<le> m" using Suc Suc.prems by simp
    have b: "outcome fn j' (st ?y) = None"
      using Suc Suc.prems by (simp add: sleep_def outcome_Suc)
    have c: "\<forall>i<j'. outcome fn i (st ?y) \<noteq> None"
      using Suc Suc.prems by (auto simp: sleep_def outcome_Suc [symmetric])
    from Suc.IH [OF a b c] show ?thesis
      by (simp add: invoke_eq e sleep_def Suc world_after_Suc replicate_app_Cons_same)
  qed
qed

lemma attempts_calls: "calls (snd (attempts m d fn x)) \<le> calls x + Suc m"
proof (induction m arbitrary: x)
  case 0
  show ?case by (simp add: invoke_eq)
next
  case (Suc m)
  let ?y = "sleep d (x\<lparr>st := snd (fn (st x)), calls := calls x + 1\<rparr>)"
  have "calls (snd (attempts m d fn ?y)) \<le> calls ?y + Suc m" by (rule Suc.IH)
  then show ?case
    by (simp add: invoke_eq sleep_def split: option.splits)
qed

lemma Retry_loop_attempts:
  assumes "sint (tries - 1) < 2 ^ 63 - 1" and "sint i \<le> sint (tries - 1) + 1"
    and "m = nat (sint (tries - 1) + 1 - sint i)"
  shows "Retry_loop tries d fn i x = Some (attempts m d fn x)"
  using assms
proof (induction m arbitrary: i x)
  case 0
  then have "\<not> i <=s tries - 1" by (simp add: word_sle_eq)
  then show ?case by (subst Retry_loop.simps) simp
next
  case (Suc m)
  then have le: "i <=s tries - 1" by (simp add: word_sle_eq)
  then have "sint i \<noteq> 2 ^ 63 - 1" using Suc.prems by (simp add: word_sle_eq)
  then have inc: "sint (i + 1) = sint i + 1" by (rule sint_inc)
  have IH: "Retry_loop tries d fn (i + 1) y = Some (attempts m d fn y)" for y
    using Suc.prems inc by (intro Suc.IH) auto
  show ?case
    by (subst Retry_loop.simps) (simp add: le IH split: prod.splits option.splits)
qed

lemma Retry_attempts:
  assumes "1 <=s tries"
  shows "Retry tries d fn s =
           Some (attempts (nat (sint tries) - 1) d fn \<lparr>st = s, calls = 0, slept = []\<rparr>)"
proof -
  from assms have pos: "1 \<le> sint tries" by (simp add: word_sle_eq)
  then have dec: "sint (tries - 1) = sint tries - 1" by (intro sint_dec) simp
  have "nat (sint tries) - 1 = nat (sint (tries - 1) + 1 - sint (1 :: go_int))"
    using pos dec by simp
  moreover have "sint (tries - 1) < 2 ^ 63 - 1"
    using dec sint_bounds [of tries] by simp
  moreover have "sint (1 :: go_int) \<le> sint (tries - 1) + 1"
    using pos dec by simp
  ultimately show ?thesis
    unfolding Retry_def by (intro Retry_loop_attempts) 
qed

lemma Retry_single:
  assumes "tries <=s 1" and "tries \<noteq> MinInt64"
  shows "Retry tries d fn s = Some (invoke fn \<lparr>st = s, calls = 0, slept = []\<rparr>)"
proof -
  have "sint tries \<noteq> - (2 ^ 63)"
  proof
    assume "sint tries = - (2 ^ 63)"
    then have "sint tries = sint MinInt64" by (simp add: MinInt64_def)
    then show False using assms(2) by (simp add: signed_word_eqI)
  qed
  then have dec: "sint (tries - 1) = sint tries - 1" by (rule sint_dec)
  with assms(1) have "\<not> 1 <=s tries - 1" by (simp add: word_sle_eq)
  then show ?thesis
    unfolding Retry_def by (subst Retry_loop.simps) simp
qed


lemma Retry_loop_calls_pos:
  fixes fn :: "'s \<Rightarrow> 'e option \<times> 's"
  assumes ret: "Retry_loop tries d fn i x = Some ry"
  shows "calls x < calls (snd ry)"
proof (rule Retry_loop.raw_induct
    [where P = "\<lambda>tries d fn i x ry. calls x < calls (snd ry)"
       and xa = "((((tries, d), fn), i), x)" and y = ry, unfolded prod.case, OF _ ret])
  fix loop tries d and fn :: "'s \<Rightarrow> 'e option \<times> 's" and i x ry
  assume IH: "\<And>tries d fn i x ry. loop tries d fn i x = Some ry \<Longrightarrow> calls x < calls (snd ry)"
    and body: "(if i <=s tries - 1
         then case invoke fn x of
                (None, x') \<Rightarrow> Some (None, x')
              | (Some e, x') \<Rightarrow> loop tries d fn (i + 1) (sleep d x')
         else Some (invoke fn x)) = Some ry"
  show "calls x < calls (snd ry)"
  proof (cases "i <=s tries - 1")
    case True
    show ?thesis
    proof (cases "fst (fn (st x))")
      case None
      with True body show ?thesis by (auto simp: invoke_eq)
    next
      case (Some e)
      with True body have "loop tries d fn (i + 1) (sleep d (snd (invoke fn x))) = Some ry"
        by (simp add: invoke_eq)
      from IH [OF this] show ?thesis by (simp add: invoke_eq sleep_def)
    qed
  next
    case False
    with body show ?thesis by (auto simp: invoke_eq)
  qed
qed

lemma Retry_calls_pos: "Retry tries d fn s = Some (r, x) \<Longrightarrow> 1 \<le> calls x"
  using Retry_loop_calls_pos [of tries d fn 1 "\<lparr>st = s, calls = 0, slept = []\<rparr>" "(r, x)"]
  by (simp add: Retry_def)


lemma Retry_loop_never_returns:
  fixes fn :: "'s \<Rightarrow> 'e option \<times> 's"
  assumes ret: "Retry_loop tries d fn i x = Some ry"
  shows "tries = MinInt64 \<longrightarrow> (\<exists>w. fst (fn w) = None)"
proof (rule Retry_loop.raw_induct
    [where P = "\<lambda>tries d fn i x ry. tries = MinInt64 \<longrightarrow> (\<exists>w. fst (fn w) = None)"
       and xa = "((((tries, d), fn), i), x)" and y = ry, unfolded prod.case, OF _ ret])
  fix loop tries d and fn :: "'s \<Rightarrow> 'e option \<times> 's" and i x ry
  assume IH: "\<And>tries d fn i x ry. loop tries d fn i x = Some ry \<Longrightarrow>
                tries = MinInt64 \<longrightarrow> (\<exists>w. fst ((fn :: 's \<Rightarrow> 'e option \<times> 's) w) = None)"
    and body: "(if i <=s tries - 1
         then case invoke fn x of
                (None, x') \<Rightarrow> Some (None, x')
              | (Some e, x') \<Rightarrow> loop tries d fn (i + 1) (sleep d x')
         else Some (invoke fn x)) = Some ry"
  show "tries = MinInt64 \<longrightarrow> (\<exists>w. fst (fn w) = None)"
  proof
    assume t: "tries = MinInt64"
    have "sint (tries - 1) = 2 ^ 63 - 1" by (simp add: t MinInt64_def)
    then have le: "i <=s tries - 1" using sint_bounds [of i] by (simp add: word_sle_eq)
    show "\<exists>w. fst (fn w) = None"
    proof (cases "fst (fn (st x))")
      case None
      then show ?thesis by blast
    next
      case (Some e)
      with le body have "loop tries d fn (i + 1) (sleep d (snd (invoke fn x))) = Some ry"
        by (simp add: invoke_eq)
      from IH [OF this] t show ?thesis by simp
    qed
  qed
qed

lemma Retry_MinInt64_diverges:
  assumes "\<forall>w. fst (fn w) \<noteq> None"
  shows "Retry MinInt64 d fn s = None"
proof (cases "Retry MinInt64 d fn s")
  case None
  then show ?thesis .
next
  case (Some ry)
  then have "Retry_loop MinInt64 d fn 1 \<lparr>st = s, calls = 0, slept = []\<rparr> = Some ry"
    by (simp add: Retry_def)
  from Retry_loop_never_returns [OF this] assms show ?thesis by simp
qed

subsection \<open>The claims on \<open>Retry\<close>\<close>

text \<open>
  C4 (as amended).  For every \<open>tries \<ge> 1\<close>, every duration and every closure,
  \<open>Retry\<close> returns and has invoked the closure at most \<open>tries\<close> times; if some
  invocation among the first \<open>tries\<close> returns \<open>nil\<close>, \<open>Retry\<close> returns \<open>nil\<close> right after
  the first such invocation, with no further one; if each of the \<open>tries\<close> invocations
  fails, \<open>Retry\<close> returns the error of invocation number \<open>tries\<close>, the last one made.
\<close>

theorem Retry_at_most_tries:
  fixes fn :: "'s \<Rightarrow> 'e option \<times> 's"
  assumes "1 <=s tries"
  shows "(\<exists>r x. Retry tries d fn s = Some (r, x) \<and> int (calls x) \<le> sint tries) \<and>
    (\<forall>j. int j < sint tries \<and> outcome fn j s = None \<and> (\<forall>i<j. outcome fn i s \<noteq> None) \<longrightarrow>
       Retry tries d fn s =
         Some (None, \<lparr>st = world_after fn (Suc j) s, calls = Suc j, slept = replicate j d\<rparr>)) \<and>
    ((\<forall>j. int j < sint tries \<longrightarrow> outcome fn j s \<noteq> None) \<longrightarrow>
       Retry tries d fn s =
         Some (outcome fn (nat (sint tries) - 1) s,
               \<lparr>st = world_after fn (nat (sint tries)) s, calls = nat (sint tries),
                slept = replicate (nat (sint tries) - 1) d\<rparr>))"
proof -
  let ?x0 = "\<lparr>st = s, calls = 0, slept = []\<rparr> :: 's exec"
  let ?m = "nat (sint tries) - 1"
  from assms have pos: "1 \<le> sint tries" by (simp add: word_sle_eq)
  have run: "Retry tries d fn s = Some (attempts ?m d fn ?x0)"
    using assms by (rule Retry_attempts)
  have "calls (snd (attempts ?m d fn ?x0)) \<le> calls ?x0 + Suc ?m"
    by (rule attempts_calls)
  with pos have "int (calls (snd (attempts ?m d fn ?x0))) \<le> sint tries" by simp
  then have A: "\<exists>r x. Retry tries d fn s = Some (r, x) \<and> int (calls x) \<le> sint tries"
    by (simp add: run) (metis prod.collapse)
  have B: "Retry tries d fn s =
         Some (None, \<lparr>st = world_after fn (Suc j) s, calls = Suc j, slept = replicate j d\<rparr>)"
    if "int j < sint tries" "outcome fn j s = None" "\<forall>i<j. outcome fn i s \<noteq> None" for j
  proof -
    from that(1) have "j \<le> ?m" by simp
    from attempts_first_nil [of j ?m fn ?x0 d, OF this] that(2,3) show ?thesis
      by (simp add: run)
  qed
  have C: "Retry tries d fn s =
         Some (outcome fn ?m s,
               \<lparr>st = world_after fn (nat (sint tries)) s, calls = nat (sint tries),
                slept = replicate ?m d\<rparr>)"
    if "\<forall>j. int j < sint tries \<longrightarrow> outcome fn j s \<noteq> None"
  proof -
    have "\<forall>j\<le>?m. outcome fn j (st ?x0) \<noteq> None"
      using that pos by auto
    from attempts_all_fail [OF this, of d] pos show ?thesis
      by (simp add: run)
  qed
  from A B C show ?thesis by blast
qed

theorem Retry_at_most_tries_witness:
  "(1 :: go_int) <=s 3 \<and>
   Retry 3 100000000 flaky 0 = Some (None, \<lparr>st = 2, calls = 2, slept = [100000000]\<rparr>) \<and>
   Retry 3 100000000 failing 0 =
     Some (Some (ErrExpectedHeight 1 2), \<lparr>st = 3, calls = 3, slept = [100000000, 100000000]\<rparr>)"
proof -
  have h: "(1 :: go_int) <=s 3" by (simp add: word_sle_eq)
  have o0: "outcome flaky 0 0 \<noteq> None" by (simp add: outcome_0 flaky_def)
  have o1: "outcome flaky 1 0 = None"
    using outcome_Suc [of flaky 0 0] by (simp add: outcome_0 flaky_def)
  have "int 1 < sint (3 :: go_int) \<and> outcome flaky 1 0 = None \<and>
      (\<forall>i<1. outcome flaky i 0 \<noteq> None) \<longrightarrow>
    Retry 3 100000000 flaky 0 =
      Some (None, \<lparr>st = world_after flaky (Suc 1) 0, calls = Suc 1, slept = replicate 1 100000000\<rparr>)"
    using Retry_at_most_tries [OF h, of 100000000 flaky 0] by blast
  with o0 o1 have "Retry 3 100000000 flaky 0 =
      Some (None, \<lparr>st = world_after flaky (Suc 1) 0, calls = Suc 1, slept = replicate 1 100000000\<rparr>)"
    by simp
  moreover have "world_after flaky (Suc 1) 0 = 2"
    by (simp add: world_after_def flaky_def)
  moreover have f: "outcome failing j s = Some (ErrExpectedHeight 1 (of_nat (j + s)))
      \<and> world_after failing j s = j + s" for j s
    by (induction j arbitrary: s) (simp_all add: outcome_0 outcome_Suc world_after_0 world_after_Suc failing_def)
  have "Retry 3 100000000 failing 0 =
      Some (outcome failing (nat (sint (3 :: go_int)) - 1) 0,
        \<lparr>st = world_after failing (nat (sint (3 :: go_int))) 0, calls = nat (sint (3 :: go_int)),
         slept = replicate (nat (sint (3 :: go_int)) - 1) 100000000\<rparr>)"
    using Retry_at_most_tries [OF h, of 100000000 failing 0] by (simp add: f)
  ultimately show ?thesis using h by (simp add: f numeral_3_eq_3)
qed

text \<open>
  C4 as stated fails at \<open>n = 0\<close>: the loop is skipped and the final \<open>return fn()\<close> still
  invokes the closure, once, which is more than \<open>0\<close> times.
\<close>

theorem Retry_zero_tries_invokes_once:
  "Retry 0 100000000 failing 0 =
     Some (Some (ErrExpectedHeight 1 0), \<lparr>st = 1, calls = 1, slept = []\<rparr>) \<and>
   \<not> int 1 \<le> sint (0 :: go_int)"
  by (simp add: Retry_def Retry_loop.simps word_sle_eq invoke_def sleep_def failing_def)

text \<open>
  C9 at \<open>tries = math.MinInt64\<close>: \<open>tries - 1\<close> wraps around to the largest \<open>int\<close>, the
  loop is entered, and a closure that fails once and then succeeds is invoked twice;
  \<open>Retry\<close> returns \<open>nil\<close>, not the error of a single invocation.
\<close>

theorem Retry_MinInt64_invokes_twice:
  "MinInt64 <=s 1 \<and>
   Retry MinInt64 100000000 flaky 0 =
     Some (None, \<lparr>st = 2, calls = 2, slept = [100000000]\<rparr>) \<and>
   invoke flaky \<lparr>st = 0, calls = 0, slept = []\<rparr> =
     (Some (Err ''not yet''), \<lparr>st = 1, calls = 1, slept = []\<rparr>)"
  by (simp add: Retry_def Retry_loop.simps MinInt64_def word_sle_eq invoke_def sleep_def flaky_def)

section \<open>Properties of the block validity checks\<close>

text \<open>
  C1.  For every accepted head \<open>A\<close> and every candidate \<open>C\<close> whose height is the height
  of \<open>A\<close> plus one, \<open>Verify\<close> accepts exactly when \<open>C\<close>'s \<open>LastHeaderHash\<close> is the hash of
  \<open>A\<close>'s header and \<open>C\<close>'s \<open>LastCommitHash\<close> is the commit hash of \<open>A\<close>'s signature; a
  mismatch of either hash is a hard failure.
\<close>

theorem Verify_adjacent:
  assumes "unat (Height (sh_Header C)) = unat (Height (sh_Header A)) + 1"
  shows "(Verify c A C = Accept \<longleftrightarrow>
            LastHeaderHash (sh_Header C) = Header_Hash c (sh_Header A) \<and>
            LastCommitHash (sh_Header C) = Signature_CommitHash c (sh_Signature A)) \<and>
         (LastHeaderHash (sh_Header C) \<noteq> Header_Hash c (sh_Header A) \<or>
          LastCommitHash (sh_Header C) \<noteq> Signature_CommitHash c (sh_Signature A)
            \<longrightarrow> Verify c A C = HardFail)"
  using assms by (simp add: Verify_def)

theorem Verify_adjacent_witness:
  "unat (Height (sh_Header block_2)) = unat (Height (sh_Header genesis_head)) + 1 \<and>
   Verify toy_crypto genesis_head block_2 = Accept \<and>
   Verify toy_crypto genesis_head forged_block_2 = HardFail"
proof -
  have h: "unat (Height (sh_Header block_2)) = unat (Height (sh_Header genesis_head)) + 1"
    by (simp add: block_2_def genesis_head_def header_at_def)
  have h': "unat (Height (sh_Header forged_block_2)) = unat (Height (sh_Header genesis_head)) + 1"
    by (simp add: forged_block_2_def genesis_head_def header_at_def)
  have "Verify toy_crypto genesis_head block_2 = Accept"
    using Verify_adjacent [OF h, of toy_crypto]
    by (simp add: block_2_def genesis_head_def header_at_def toy_crypto_def)
  moreover have "Verify toy_crypto genesis_head forged_block_2 = HardFail"
    using Verify_adjacent [OF h', of toy_crypto]
    by (simp add: forged_block_2_def genesis_head_def header_at_def toy_crypto_def)
  ultimately show ?thesis using h by simp
qed

text \<open>
  C2.  Outside the adjacent case the height alone decides: a candidate more than one
  above the accepted head is a soft failure whatever its hashes, and a candidate at or
  below the accepted head is a hard failure.
\<close>

theorem Verify_by_height:
  "(unat (Height (sh_Header C)) > unat (Height (sh_Header A)) + 1 \<longrightarrow>
      Verify c A C = SoftFail) \<and>
   (unat (Height (sh_Header C)) \<le> unat (Height (sh_Header A)) \<longrightarrow>
      Verify c A C = HardFail)"
  by (simp add: Verify_def)

theorem Verify_by_height_witness:
  "unat (Height (sh_Header block_5)) > unat (Height (sh_Header genesis_head)) + 1 \<and>
   Verify toy_crypto genesis_head block_5 = SoftFail \<and>
   unat (Height (sh_Header block_2)) \<le> unat (Height (sh_Header block_2)) \<and>
   Verify toy_crypto block_2 block_2 = HardFail"
  using Verify_by_height [of genesis_head block_5 toy_crypto]
    Verify_by_height [of block_2 block_2 toy_crypto]
  by (simp add: block_5_def genesis_head_def header_at_def)

text \<open>
  C3 as stated fails: a block whose data hash matches and whose validator set is nil is
  still rejected when its \<open>ProposerAddress\<close> is nil, by \<open>Header.ValidateBasic\<close>, the first
  step of the cascade.
\<close>

theorem ValidateBasic_rejects_nil_proposer_address:
  "ValidateBasic toy_crypto unaddressed_block = Inl ErrProposerAddressNil \<and>
   Data_Hash toy_crypto (blk_Data unaddressed_block) =
     DataHash (sh_Header (blk_SignedHeader unaddressed_block)) \<and>
   sh_Validators (blk_SignedHeader unaddressed_block) = None"
  by (simp add: ValidateBasic_def SignedHeader_ValidateBasic_def unaddressed_block_def
      header_at_def toy_crypto_def)

text \<open>
  C3 (as amended).  For every block \<open>B\<close>, \<open>ValidateBasic\<close> succeeds if and only if the
  header's \<open>ProposerAddress\<close> is not nil, the signature has at least one byte, the hash
  of the data equals the header's \<open>DataHash\<close>, and either the validator set is nil or
  empty, or it is non-empty, every validator and the proposer pass
  \<open>Validator.ValidateBasic\<close>, the hash of the set equals the header's \<open>AggregatorsHash\<close>,
  and the signature verifies against the header hash with the proposer's key.
\<close>

theorem ValidateBasic_iff:
  "ValidateBasic c B = Inr () \<longleftrightarrow>
     ProposerAddress (sh_Header (blk_SignedHeader B)) \<noteq> None \<and>
     sh_Signature (blk_SignedHeader B) \<noteq> [] \<and>
     Data_Hash c (blk_Data B) = DataHash (sh_Header (blk_SignedHeader B)) \<and>
     (case sh_Validators (blk_SignedHeader B) of
        None \<Rightarrow> True
      | Some vs \<Rightarrow>
          vs_Validators vs = [] \<or>
          (vs_Validators vs \<noteq> [] \<and>
           list_all (Validator_ValidateBasic c) (vs_Validators vs) \<and>
           Validator_ValidateBasic c (vs_Proposer vs) \<and>
           ValidatorSet_Hash c vs = AggregatorsHash (sh_Header (blk_SignedHeader B)) \<and>
           verifyWithProposer c vs (Header_Hash c (sh_Header (blk_SignedHeader B)))
             (sh_Signature (blk_SignedHeader B))))"
  by (simp add: ValidateBasic_def SignedHeader_ValidateBasic_def ValidatorSet_ValidateBasic_def
      Data_ValidateBasic_def split: option.splits)

theorem ValidateBasic_iff_witness:
  "ValidateBasic toy_crypto based_block = Inr () \<and>
   ValidateBasic toy_crypto sequenced_block = Inr () \<and>
   ValidateBasic toy_crypto unaddressed_block \<noteq> Inr ()"
  using ValidateBasic_iff [of toy_crypto based_block]
    ValidateBasic_iff [of toy_crypto sequenced_block]
    ValidateBasic_iff [of toy_crypto unaddressed_block]
  by (simp add: based_block_def sequenced_block_def unaddressed_block_def block_2_def
      header_at_def toy_crypto_def sequencer_def Validator_ValidateBasic_def
      verifyWithProposer_def)

section \<open>Properties of the height resolver\<close>

lemma sources_distinct:
  "Header \<noteq> Data" "Header \<noteq> Store" "Data \<noteq> Store"
  "Data \<noteq> Header" "Store \<noteq> Header" "Store \<noteq> Data"
  by (simp_all add: Header_def Data_def Store_def)

text \<open>
  C7 as stated fails: the \<open>Store\<close> source is supported on a full node, and still the
  resolution fails there when the block manager's \<open>GetStoreHeight\<close> fails.
\<close>

theorem getNodeHeight_supported_source_fails:
  "source_supported stalled_full_node Store \<and>
   getNodeHeight stalled_full_node Store () = (0, Some (Err ''datastore: closed''))"
  by (simp add: source_supported_def stalled_full_node_def getNodeHeight_def
      getNodeHeightFromStore_def Header_def Data_def Store_def)

text \<open>
  C7 (as amended).  Height resolution fails exactly when the source is unsupported for
  the node's role, or the source is \<open>Store\<close> on a full node and the block manager's
  \<open>GetStoreHeight\<close> fails.  When the source is unsupported the returned height is 0.
  The \<open>Data\<close> and \<open>Store\<close> sources are unsupported on every node that is not a full
  node; the \<open>Header\<close> source succeeds on full and on light nodes.  The resolver hands on
  what the one call it makes returns.
\<close>

theorem getNodeHeight_fails_iff:
  "(snd (getNodeHeight node source w) \<noteq> None \<longleftrightarrow>
      \<not> source_supported node source \<or>
      (case node of
         FullNode fn \<Rightarrow> source = Store \<and> snd (fn_GetStoreHeight fn w) \<noteq> None
       | _ \<Rightarrow> False)) \<and>
   (\<not> source_supported node source \<longrightarrow> fst (getNodeHeight node source w) = 0) \<and>
   ((case node of FullNode _ \<Rightarrow> False | _ \<Rightarrow> True) \<longrightarrow>
      \<not> source_supported node Data \<and> \<not> source_supported node Store) \<and>
   ((case node of OtherNode \<Rightarrow> False | _ \<Rightarrow> True) \<longrightarrow>
      snd (getNodeHeight node Header w) = None) \<and>
   (case node of
      FullNode fn \<Rightarrow> getNodeHeight node Store w = fn_GetStoreHeight fn w
    | _ \<Rightarrow> True)"
  by (cases node)
    (auto simp: getNodeHeight_def getNodeHeightFromHeader_def getNodeHeightFromData_def
      getNodeHeightFromStore_def source_supported_def sources_distinct)

theorem getNodeHeight_fails_iff_witness:
  "getNodeHeight synced_light_node Header () = (7, None) \<and>
   fst (getNodeHeight synced_light_node Data ()) = 0 \<and>
   snd (getNodeHeight synced_light_node Data ()) \<noteq> None \<and>
   snd (getNodeHeight synced_full_node Data ()) = None \<and>
   getNodeHeight synced_full_node Store () = (5, None)"
proof -
  have "snd (getNodeHeight synced_light_node Header ()) = None"
    using getNodeHeight_fails_iff [of synced_light_node Header "()"]
    by (simp add: synced_light_node_def)
  moreover have "fst (getNodeHeight synced_light_node Header ()) = 7"
    by (simp add: getNodeHeight_def getNodeHeightFromHeader_def synced_light_node_def)
  moreover have "fst (getNodeHeight synced_light_node Data ()) = 0 \<and>
      snd (getNodeHeight synced_light_node Data ()) \<noteq> None"
    using getNodeHeight_fails_iff [of synced_light_node Data "()"]
    by (simp add: synced_light_node_def source_supported_def sources_distinct)
  moreover have "snd (getNodeHeight synced_full_node Data ()) = None"
    using getNodeHeight_fails_iff [of synced_full_node Data "()"]
    by (simp add: synced_full_node_def source_supported_def sources_distinct)
  moreover have "getNodeHeight synced_full_node Store () = (5, None)"
    using getNodeHeight_fails_iff [of synced_full_node Store "()"]
    by (simp add: synced_full_node_def)
  ultimately show ?thesis by (simp add: prod_eq_iff)
qed

subsection \<open>Waiting for DA inclusion\<close>

lemma daIncluded_world_after:
  "world_after (\<lambda>w. (daIncludedAttempt n (get w), env w)) k w = (env ^^ k) w"
  by (simp add: world_after_def)

lemma Retry_all_fail:
  fixes fn :: "'s \<Rightarrow> 'e option \<times> 's"
  assumes "1 <=s tries" and "\<forall>j. outcome fn j s \<noteq> None"
  shows "Retry tries d fn s =
    Some (outcome fn (nat (sint tries) - 1) s,
      \<lparr>st = world_after fn (nat (sint tries)) s, calls = nat (sint tries),
       slept = replicate (nat (sint tries) - 1) d\<rparr>)"
proof -
  let ?x0 = "\<lparr>st = s, calls = 0, slept = []\<rparr> :: 's exec"
  from assms(1) have pos: "1 \<le> sint tries" by (simp add: word_sle_eq)
  have "\<forall>j\<le>nat (sint tries) - 1. outcome fn j (st ?x0) \<noteq> None"
    using assms(2) by simp
  from attempts_all_fail [OF this, of d] pos show ?thesis
    by (simp add: Retry_attempts [OF assms(1)])
qed

text \<open>
  C8.  Whatever the target \<open>n\<close>, a polling attempt that reads a DA-included height of 0
  fails; an attempt succeeds only on a height that is not 0 and at least \<open>n\<close>.  On a
  full node whose DA-included height is 0 at every poll the wait makes its 300 attempts
  and returns the error of the last; on no node does it succeed while the height stays
  0 (on a node that is not a full node it panics).
\<close>

theorem waitForAtLeastNDAIncludedHeight_zero_fails:
  "daIncludedAttempt n 0 = Some (Err ''waiting for DA inclusion'') \<and>
   (daIncludedAttempt n h = None \<longleftrightarrow> h \<noteq> 0 \<and> n \<le> h) \<and>
   ((\<forall>k. fn_GetDAIncludedHeight fn ((env ^^ k) w) = 0) \<longrightarrow>
      waitForAtLeastNDAIncludedHeight (FullNode fn) n env w =
        Returned (Some (Some (Err ''waiting for DA inclusion''),
          \<lparr>st = (env ^^ 300) w, calls = 300, slept = replicate 299 100000000\<rparr>))) \<and>
   ((\<forall>fn k. node = FullNode fn \<longrightarrow> fn_GetDAIncludedHeight fn ((env ^^ k) w) = 0) \<longrightarrow>
      (\<forall>x. waitForAtLeastNDAIncludedHeight node n env w \<noteq> Returned (Some (None, x))))"
proof -
  have A: "daIncludedAttempt n 0 = Some (Err ''waiting for DA inclusion'')"
    by (simp add: daIncludedAttempt_def)
  have B: "daIncludedAttempt n h = None \<longleftrightarrow> h \<noteq> 0 \<and> n \<le> h"
    by (simp add: daIncludedAttempt_def)
  have C: "waitForAtLeastNDAIncludedHeight (FullNode fn) n env w =
        Returned (Some (Some (Err ''waiting for DA inclusion''),
          \<lparr>st = (env ^^ 300) w, calls = 300, slept = replicate 299 100000000\<rparr>))"
    if zero: "\<forall>k. fn_GetDAIncludedHeight fn ((env ^^ k) w) = 0" for fn
  proof -
    let ?poll = "\<lambda>w. (daIncludedAttempt n (fn_GetDAIncludedHeight fn w), env w)"
    have out: "outcome ?poll j w = Some (Err ''waiting for DA inclusion'')" for j
      using zero by (simp add: outcome_def daIncluded_world_after A)
    have tries: "(1 :: go_int) <=s 300" by (simp add: word_sle_eq)
    have "Retry 300 100000000 ?poll w =
      Some (outcome ?poll (nat (sint (300 :: go_int)) - 1) w,
        \<lparr>st = world_after ?poll (nat (sint (300 :: go_int))) w,
         calls = nat (sint (300 :: go_int)),
         slept = replicate (nat (sint (300 :: go_int)) - 1) 100000000\<rparr>)"
      by (rule Retry_all_fail [OF tries]) (simp add: out)
    then show ?thesis
      by (simp add: waitForAtLeastNDAIncludedHeight_def out daIncluded_world_after)
  qed
  have D: "\<forall>x. waitForAtLeastNDAIncludedHeight node n env w \<noteq> Returned (Some (None, x))"
    if "\<forall>fn k. node = FullNode fn \<longrightarrow> fn_GetDAIncludedHeight fn ((env ^^ k) w) = 0"
  proof (cases node)
    case (FullNode fn)
    with that have "\<forall>k. fn_GetDAIncludedHeight fn ((env ^^ k) w) = 0" by simp
    from C [OF this] FullNode show ?thesis by simp
  next
    case (LightNode ln)
    then show ?thesis by (simp add: waitForAtLeastNDAIncludedHeight_def)
  next
    case OtherNode
    then show ?thesis by (simp add: waitForAtLeastNDAIncludedHeight_def)
  qed
  from A B C D show ?thesis by blast
qed

theorem waitForAtLeastNDAIncludedHeight_zero_fails_witness:
  "waitForAtLeastNDAIncludedHeight stalled_full_node 0 id () =
     Returned (Some (Some (Err ''waiting for DA inclusion''),
       \<lparr>st = (), calls = 300, slept = replicate 299 100000000\<rparr>)) \<and>
   daIncludedAttempt 0 0 \<noteq> None"
  using waitForAtLeastNDAIncludedHeight_zero_fails
    [of 0 0 "\<lparr>fn_hSyncService_Height = (\<lambda>_. 7), fn_dSyncService_Height = (\<lambda>_. 7),
       fn_GetStoreHeight = (\<lambda>_. (0, Some (Err ''datastore: closed''))),
       fn_GetDAIncludedHeight = (\<lambda>_. 0)\<rparr>" id "()" stalled_full_node]
  by (simp add: stalled_full_node_def)

section \<open>Properties of the store server\<close>

lemma collectMetadata_eq:
  "collectMetadata s keys acc =
     acc @ concat (map (\<lambda>key. case store_GetMetadata s key of
                               Inl err \<Rightarrow> []
                             | Inr value \<Rightarrow> [\<lparr>Key = key, Value = value\<rparr>]) keys)"
  by (induction keys arbitrary: acc) (simp_all split: sum.splits)

lemma collectMetadata_keys:
  "map Key (collectMetadata s keys []) = filter (\<lambda>key. isl (store_GetMetadata s key) = False) keys"
  by (induction keys) (simp_all add: collectMetadata_eq split: sum.splits)

lemma collectMetadata_set:
  "e \<in> set (collectMetadata s keys []) \<longleftrightarrow>
     Key e \<in> set keys \<and> store_GetMetadata s (Key e) = Inr (Value e)"
  by (induction keys) (auto simp: collectMetadata_eq split: sum.splits)

lemma collectMetadata_cong:
  "\<forall>key\<in>set keys. store_GetMetadata s' key = store_GetMetadata s key \<Longrightarrow>
   collectMetadata s' keys acc = collectMetadata s keys acc"
  by (induction keys arbitrary: acc) (simp_all split: sum.splits)

lemma known_keys_distinct: "distinct GetKnownMetadataKeysList"
  by (simp add: GetKnownMetadataKeysList_def DAIncludedHeightKey_def LastBatchDataKey_def
      LastSubmittedHeaderHeightKey_def LastSubmittedDataHeightKey_def)

text \<open>
  C5.  In every store state \<open>GetAllMetadata\<close> succeeds, and its entries are exactly the
  pairs of a known key (\<open>d\<close>, \<open>l\<close>, \<open>last-submitted-header-height\<close>,
  \<open>last-submitted-data-height\<close>) whose lookup succeeds and the bytes the store returns
  for it, each key once; a key whose lookup fails has no entry.
\<close>

theorem GetAllMetadata_exact:
  "\<exists>entries. GetAllMetadata s = Inr entries \<and>
     distinct (map Key entries) \<and>
     set entries =
       {e. Key e \<in> {''d'', ''l'', ''last-submitted-header-height'', ''last-submitted-data-height''}
           \<and> store_GetMetadata s (Key e) = Inr (Value e)}"
proof -
  let ?entries = "collectMetadata s GetKnownMetadataKeysList []"
  have "distinct (map Key ?entries)"
    by (simp add: collectMetadata_keys known_keys_distinct)
  moreover have "set GetKnownMetadataKeysList =
      {''d'', ''l'', ''last-submitted-header-height'', ''last-submitted-data-height''}"
    by (simp add: GetKnownMetadataKeysList_def DAIncludedHeightKey_def LastBatchDataKey_def
        LastSubmittedHeaderHeightKey_def LastSubmittedDataHeightKey_def)
  then have "set ?entries =
       {e. Key e \<in> {''d'', ''l'', ''last-submitted-header-height'', ''last-submitted-data-height''}
           \<and> store_GetMetadata s (Key e) = Inr (Value e)}"
    using collectMetadata_set [of _ s GetKnownMetadataKeysList] by blast
  ultimately show ?thesis by (simp add: GetAllMetadata_def)
qed

theorem GetAllMetadata_exact_witness:
  "GetAllMetadata partial_store =
     Inr [\<lparr>Key = ''d'', Value = [1, 0, 0, 0, 0, 0, 0, 0]\<rparr>,
          \<lparr>Key = ''l'', Value = [98, 97, 116, 99, 104]\<rparr>]"
proof -
  from GetAllMetadata_exact [of partial_store]
  obtain entries where "GetAllMetadata partial_store = Inr entries" by blast
  then show ?thesis
    by (simp add: GetAllMetadata_def GetKnownMetadataKeysList_def DAIncludedHeightKey_def
        LastBatchDataKey_def LastSubmittedHeaderHeightKey_def LastSubmittedDataHeightKey_def
        partial_store_def)
qed

text \<open>
  C10.  In every store state the keys of the entries returned by \<open>GetAllMetadata\<close>, in
  the order returned, are a subsequence of the known-key list \<open>d\<close>, \<open>l\<close>,
  \<open>last-submitted-header-height\<close>, \<open>last-submitted-data-height\<close>; and the result is
  determined by what the store answers for these four keys, so that two calls against
  the same store state return the same sequence.
\<close>

theorem GetAllMetadata_ordered:
  "(\<exists>entries. GetAllMetadata s = Inr entries \<and>
      subseq (map Key entries)
        [''d'', ''l'', ''last-submitted-header-height'', ''last-submitted-data-height'']) \<and>
   ((\<forall>key\<in>set GetKnownMetadataKeysList. store_GetMetadata s' key = store_GetMetadata s key)
      \<longrightarrow> GetAllMetadata s' = GetAllMetadata s)"
proof -
  have "subseq (map Key (collectMetadata s GetKnownMetadataKeysList [])) GetKnownMetadataKeysList"
    by (simp add: collectMetadata_keys)
  then have "\<exists>entries. GetAllMetadata s = Inr entries \<and>
      subseq (map Key entries)
        [''d'', ''l'', ''last-submitted-header-height'', ''last-submitted-data-height'']"
    by (simp add: GetAllMetadata_def GetKnownMetadataKeysList_def DAIncludedHeightKey_def
        LastBatchDataKey_def LastSubmittedHeaderHeightKey_def LastSubmittedDataHeightKey_def)
  moreover have "GetAllMetadata s' = GetAllMetadata s"
    if "\<forall>key\<in>set GetKnownMetadataKeysList. store_GetMetadata s' key = store_GetMetadata s key"
    using collectMetadata_cong [OF that] by (simp add: GetAllMetadata_def)
  ultimately show ?thesis by blast
qed

theorem GetAllMetadata_ordered_witness:
  "store_GetMetadata (partial_store\<lparr>store_Height := Inr 21\<rparr>) =
     store_GetMetadata partial_store \<and>
   GetAllMetadata (partial_store\<lparr>store_Height := Inr 21\<rparr>) = GetAllMetadata partial_store"
proof -
  have h: "\<forall>key\<in>set GetKnownMetadataKeysList.
      store_GetMetadata (partial_store\<lparr>store_Height := Inr 21\<rparr>) key =
      store_GetMetadata partial_store key"
    by simp
  with GetAllMetadata_ordered [of partial_store "partial_store\<lparr>store_Height := Inr 21\<rparr>"]
  show ?thesis by simp
qed

text \<open>
  C6.  A block-by-height request for height 0 asks for the latest block: the store's
  height is queried first, and when it is not 0 the block at that height is fetched
  next and answers the request; when the store's height is 0 the request fails with
  \<open>NotFound\<close> and no block is fetched.  A request for a height above 0 fetches the
  block at exactly that height and does not query the store's height.
\<close>

theorem GetBlock_by_height:
  "(store_Height s = Inr latest \<and> latest \<noteq> 0 \<longrightarrow>
      GetBlock s hToProto dToProto (GetBlockRequest_Height 0) =
        (respond hToProto dToProto (store_GetBlockData s latest),
         [Call_Height, Call_GetBlockData latest])) \<and>
   (store_Height s = Inr 0 \<longrightarrow>
      GetBlock s hToProto dToProto (GetBlockRequest_Height 0) =
        (Inl (NewError CodeNotFound ''store is empty, no latest block available'' None),
         [Call_Height])) \<and>
   (store_Height s = Inl err \<longrightarrow>
      GetBlock s hToProto dToProto (GetBlockRequest_Height 0) =
        (Inl (NewError CodeInternal ''failed to get latest height: '' (Some err)),
         [Call_Height])) \<and>
   (height \<noteq> 0 \<longrightarrow>
      GetBlock s hToProto dToProto (GetBlockRequest_Height height) =
        (respond hToProto dToProto (store_GetBlockData s height),
         [Call_GetBlockData height]))"
  by (simp add: GetBlock_def)

theorem GetBlock_by_height_witness:
  "GetBlock partial_store Inr id (GetBlockRequest_Height 0) =
     (Inr \<lparr>pb_Header = 20, pb_Data = 20\<rparr>, [Call_Height, Call_GetBlockData 20]) \<and>
   GetBlock empty_store Inr id (GetBlockRequest_Height 0) =
     (Inl (NewError CodeNotFound ''store is empty, no latest block available'' None),
      [Call_Height]) \<and>
   GetBlock partial_store Inr id (GetBlockRequest_Height 10) =
     (Inr \<lparr>pb_Header = 10, pb_Data = 10\<rparr>, [Call_GetBlockData 10])"
  using GetBlock_by_height [of partial_store 20 Inr id "Err ''unused''" 10]
    GetBlock_by_height [of empty_store 20 Inr id "Err ''unused''" 10]
  by (simp add: partial_store_def empty_store_def respond_def)

end
